theory Spec2Isabelle
  imports Complex_Main
begin

section \<open>Paths\<close>

text \<open>
  A \<^verbatim>\<open>pathlib.Path\<close>, already split the way \<^verbatim>\<open>Path.stem\<close> and \<^verbatim>\<open>Path.suffix\<close> read
  it: the directory part, and the final component as stem and suffix. The final component
  (\<^verbatim>\<open>Path.name\<close>) is the stem followed by the suffix.
\<close>

record path =
  path_parent :: string
  path_stem :: string
  path_suffix :: string

section \<open>Errors\<close>

text \<open>
  Every exception that \<^verbatim>\<open>main.py\<close> or one of its collaborators can raise is a value.
  \<open>ValueError\<close> is the one raised by \<^verbatim>\<open>_Edit.__call__\<close> (and by \<^verbatim>\<open>Path.with_stem\<close> on a
  path with an empty name), \<open>ValidationError\<close> and \<open>DecodeError\<close> are the ones of the
  typed decoder, \<open>KeyError\<close> is a missing dictionary key, \<open>FileExistsError\<close> is raised by
  \<^verbatim>\<open>Replace._dst\<close>, \<open>FileNotFoundError\<close> by reading a missing file or writing into a missing
  directory, and \<open>ColorError\<close> stands
  for whatever the colour library raises (a string that is not a colour, a channel name
  that the colour space does not have).
\<close>

datatype error =
    ValueError string
  | ValidationError string
  | DecodeError string
  | KeyError string
  | FileExistsError path
  | FileNotFoundError path
  | ColorError string

section \<open>Python dictionaries\<close>

text \<open>
  A Python \<^verbatim>\<open>dict\<close> keeps its keys in insertion order, and storing under a key that is
  already present replaces the value and leaves the key at its place. It is modelled as
  an association list; \<open>setitem\<close> is \<^verbatim>\<open>d[k] = v\<close>, \<open>dict_of\<close> is \<^verbatim>\<open>dict(pairs)\<close> and
  also a dictionary comprehension (both store the pairs one after the other), \<open>getitem\<close>
  is \<^verbatim>\<open>d[k]\<close>; \<^verbatim>\<open>d.items()\<close> is the list itself and \<^verbatim>\<open>d.values()\<close> is \<open>map snd\<close>.
\<close>

type_synonym ('k, 'v) dict = "('k \<times> 'v) list"

fun setitem :: "('k, 'v) dict \<Rightarrow> 'k \<Rightarrow> 'v \<Rightarrow> ('k, 'v) dict" where
  "setitem [] k v = [(k, v)]"
| "setitem ((k', v') # d) k v =
     (if k' = k then (k', v) # d else (k', v') # setitem d k v)"

definition dict_of :: "('k \<times> 'v) list \<Rightarrow> ('k, 'v) dict" where
  "dict_of pairs = foldl (\<lambda>d (k, v). setitem d k v) [] pairs"

definition getitem :: "(string, 'v) dict \<Rightarrow> string \<Rightarrow> error + 'v" where
  "getitem d k = (case map_of d k of None \<Rightarrow> Inl (KeyError k) | Some v \<Rightarrow> Inr v)"

section \<open>Edit rules\<close>

text \<open>
  The dataclass \<^verbatim>\<open>_Edit\<close>. The channel values are Python floats; the only arithmetic
  the program does on them is one multiplication, so the carrier is any type with a
  multiplication. \<open>edit_type\<close> is a string, as it is at run time: the annotation
  \<^verbatim>\<open>Literal['value', 'multiply']\<close> is enforced by the decoder, not by the dataclass.
\<close>

record 'a Edit =
  edit_variable :: string
  edit_value :: 'a
  edit_type :: string
  edit_name :: "string option"
  edit_accent :: "bool option"

text \<open>\<^verbatim>\<open>_Edit.__call__\<close>: the \<^verbatim>\<open>match\<close> on \<^verbatim>\<open>self.type\<close>, case by case.\<close>

definition Edit_call :: "('a::times) Edit \<Rightarrow> 'a \<Rightarrow> error + 'a" where
  "Edit_call self val =
     (if edit_type self = ''value'' then Inr (edit_value self)
      else if edit_type self = ''multiply'' then
        (let v = edit_value self in Inr (val * v))
      else Inl (ValueError (edit_type self)))"

section \<open>The palette dataset\<close>

text \<open>
  \<^verbatim>\<open>catppuccin.models.Color\<close> and \<^verbatim>\<open>catppuccin.models.Flavor\<close>, with the fields that
  \<^verbatim>\<open>main.py\<close> reads.
\<close>

record models_Color =
  color_name :: string
  color_identifier :: string
  color_accent :: bool
  color_hex :: string

record models_Flavor =
  flavor_identifier :: string
  flavor_dark :: bool
  flavor_colors :: "models_Color list"

section \<open>Matching a rule against a colour\<close>

text \<open>
  The condition of the loop in \<^verbatim>\<open>_Colors.create\<close>:
  \<^verbatim>\<open>edit.name in {color.name, color.identifier} or edit.accent == color.accent\<close>.
  \<^verbatim>\<open>edit.name\<close> is a string or \<^verbatim>\<open>None\<close> and is looked up in a set of two strings;
  \<^verbatim>\<open>edit.accent\<close> is a boolean or \<^verbatim>\<open>None\<close> and is compared with a boolean.
\<close>

definition matches :: "'a Edit \<Rightarrow> models_Color \<Rightarrow> bool" where
  "matches edit color \<longleftrightarrow>
     edit_name edit \<in> {Some (color_name color), Some (color_identifier color)}
     \<or> edit_accent edit = Some (color_accent color)"

section \<open>The colour library\<close>

text \<open>
  The colour arithmetic is done by \<^verbatim>\<open>coloraide\<close>, which is not part of the program. What
  \<^verbatim>\<open>_Colors.create\<close> asks of it is taken as a parameter: \<open>to_okhsl\<close> is
  \<^verbatim>\<open>_Color(hex).convert('okhsl')\<close>, \<open>get_channel\<close> reads the channel that \<^verbatim>\<open>c.set\<close> is about
  to change (and fails on a name that is no channel), \<open>put_channel\<close> stores a channel,
  and \<open>to_hex\<close> is \<^verbatim>\<open>c.convert('srgb').to_string(hex=True)\<close>. \<open>'c\<close> is the colour object.
\<close>

record ('a, 'c) coloraide =
  to_okhsl :: "string \<Rightarrow> error + 'c"
  get_channel :: "'c \<Rightarrow> string \<Rightarrow> error + 'a"
  put_channel :: "'c \<Rightarrow> string \<Rightarrow> 'a \<Rightarrow> 'c"
  to_hex :: "'c \<Rightarrow> string"

text \<open>
  \<^verbatim>\<open>c.set(name, f)\<close> with a callable \<open>f\<close>: the channel becomes \<open>f\<close> of its current value.
  An exception of \<open>f\<close> leaves through \<^verbatim>\<open>set\<close>.
\<close>

definition color_set ::
  "('a, 'c) coloraide \<Rightarrow> 'c \<Rightarrow> string \<Rightarrow> ('a \<Rightarrow> error + 'a) \<Rightarrow> error + 'c" where
  "color_set lib c name f =
     (case get_channel lib c name of
        Inl e \<Rightarrow> Inl e
      | Inr v \<Rightarrow> (case f v of Inl e \<Rightarrow> Inl e | Inr v' \<Rightarrow> Inr (put_channel lib c name v')))"

section \<open>Palette colours\<close>

text \<open>The dataclass \<^verbatim>\<open>_Colors\<close>.\<close>

record Colors =
  colors_name :: string
  colors_original :: string
  colors_custom :: string
  colors_changed :: bool

text \<open>The loop of \<^verbatim>\<open>_Colors.create\<close> over the rules, in list order, on the colour object.\<close>

fun apply_edits ::
  "('a::times, 'c) coloraide \<Rightarrow> models_Color \<Rightarrow> 'c \<Rightarrow> 'a Edit list \<Rightarrow> error + 'c" where
  "apply_edits lib color c [] = Inr c"
| "apply_edits lib color c (edit # edits) =
     (if matches edit color then
        (case color_set lib c (edit_variable edit) (Edit_call edit) of
           Inl e \<Rightarrow> Inl e
         | Inr c' \<Rightarrow> apply_edits lib color c' edits)
      else apply_edits lib color c edits)"

text \<open>\<^verbatim>\<open>_Colors.create\<close>.\<close>

definition Colors_create ::
  "('a::times, 'c) coloraide \<Rightarrow> models_Color \<Rightarrow> 'a Edit list \<Rightarrow> error + Colors" where
  "Colors_create lib color edits =
     (case to_okhsl lib (color_hex color) of
        Inl e \<Rightarrow> Inl e
      | Inr c0 \<Rightarrow>
          (case apply_edits lib color c0 edits of
             Inl e \<Rightarrow> Inl e
           | Inr c \<Rightarrow>
               (let custom = to_hex lib c in
                Inr \<lparr>colors_name = color_identifier color,
                     colors_original = color_hex color,
                     colors_custom = custom,
                     colors_changed = (color_hex color \<noteq> custom)\<rparr>)))"

section \<open>Flavors\<close>

text \<open>The dataclass \<^verbatim>\<open>_Flavor\<close>; \<open>colors\<close> is a tuple.\<close>

record Flavor =
  flavor_name :: string
  colors :: "Colors list"

text \<open>
  A generator expression or comprehension whose body can raise: the elements are computed
  from left to right and the first exception ends it.
\<close>

fun traverse :: "('x \<Rightarrow> error + 'y) \<Rightarrow> 'x list \<Rightarrow> error + 'y list" where
  "traverse f [] = Inr []"
| "traverse f (x # xs) =
     (case f x of
        Inl e \<Rightarrow> Inl e
      | Inr y \<Rightarrow> (case traverse f xs of Inl e \<Rightarrow> Inl e | Inr ys \<Rightarrow> Inr (y # ys)))"

text \<open>\<^verbatim>\<open>_Flavor.create\<close>.\<close>

definition Flavor_create ::
  "('a::times, 'c) coloraide \<Rightarrow> models_Flavor \<Rightarrow> 'a Edit list \<Rightarrow> error + Flavor" where
  "Flavor_create lib flavor edits =
     (case traverse (\<lambda>c. Colors_create lib c edits) (flavor_colors flavor) of
        Inl e \<Rightarrow> Inl e
      | Inr cs \<Rightarrow> Inr \<lparr>flavor_name = flavor_identifier flavor, colors = cs\<rparr>)"

text \<open>The three views \<^verbatim>\<open>_Flavor.original\<close>, \<^verbatim>\<open>_Flavor.custom\<close> and \<^verbatim>\<open>_Flavor.dict\<close>.\<close>

definition Flavor_original :: "Flavor \<Rightarrow> (string, string) dict" where
  "Flavor_original self = dict_of (map (\<lambda>c. (colors_name c, colors_original c)) (colors self))"

definition Flavor_custom :: "Flavor \<Rightarrow> (string, string) dict" where
  "Flavor_custom self = dict_of (map (\<lambda>c. (colors_name c, colors_custom c)) (colors self))"

definition Flavor_dict :: "Flavor \<Rightarrow> (string, string) dict" where
  "Flavor_dict self =
     dict_of (map (\<lambda>c. (colors_original c, colors_custom c)) (filter colors_changed (colors self)))"

section \<open>Text substitution\<close>

text \<open>
  Python's \<^verbatim>\<open>str.replace(old, new)\<close>: the occurrences of \<open>old\<close> are found from left to
  right and do not overlap; the text after a replaced occurrence is scanned on, the
  replacement itself is not scanned again. With an empty \<open>old\<close>, \<open>new\<close> is put before
  every character and at the end.
\<close>

function scan :: "string \<Rightarrow> string \<Rightarrow> string \<Rightarrow> string" where
  "scan old new [] = []"
| "scan old new (c # cs) =
     (if old \<noteq> [] \<and> take (length old) (c # cs) = old
      then new @ scan old new (drop (length old) (c # cs))
      else c # scan old new cs)"
  by pat_completeness auto
termination
  by (relation "measure (\<lambda>(old, new, s). length s)") (auto simp: neq_Nil_conv)

definition str_replace :: "string \<Rightarrow> string \<Rightarrow> string \<Rightarrow> string" where
  "str_replace old new s =
     (if old = [] then new @ concat (map (\<lambda>c. c # new) s) else scan old new s)"

text \<open>
  The loop of \<^verbatim>\<open>Replace.__call__\<close>:
  \<^verbatim>\<open>for prev, new in colors.items(): text = text.replace(prev, new)\<close>.
\<close>

fun substitute :: "(string, string) dict \<Rightarrow> string \<Rightarrow> string" where
  "substitute [] text = text"
| "substitute ((prev, new) # items) text = substitute items (str_replace prev new text)"

section \<open>The configuration\<close>

text \<open>
  A parsed TOML document. The parser itself belongs to \<^verbatim>\<open>msgspec\<close> and is a parameter
  below; what follows it is the conversion to the type that \<^verbatim>\<open>Editor.edits\<close> asks for,
  \<^verbatim>\<open>dict[str, tuple[_Edit, ...]]\<close>, field by field as \<^verbatim>\<open>_Edit\<close> declares them:
  \<^verbatim>\<open>variable: str\<close> and \<^verbatim>\<open>value: float\<close> are required (an integer is accepted for a float when a float can hold it, which is the
  parameter \<open>float\<close>: \<open>None\<close> for an integer out of the range of a float),
  \<^verbatim>\<open>type: Literal['value', 'multiply'] = 'value'\<close>, \<^verbatim>\<open>name: str | None = None\<close> and
  \<^verbatim>\<open>accent: bool | None = None\<close> have defaults, and a value that is not of the declared type
  is a \<open>ValidationError\<close>.
\<close>

datatype 'a toml =
    TString string
  | TInteger int
  | TFloat 'a
  | TBoolean bool
  | TArray "'a toml list"
  | TTable "(string \<times> 'a toml) list"

definition decode_variable :: "(string \<times> 'a toml) list \<Rightarrow> error + string" where
  "decode_variable tbl =
     (case map_of tbl ''variable'' of
        None \<Rightarrow> Inl (ValidationError ''Object missing required field `variable`'')
      | Some (TString s) \<Rightarrow> Inr s
      | Some _ \<Rightarrow> Inl (ValidationError ''Expected `str`''))"

definition decode_value ::
  "(int \<Rightarrow> 'a option) \<Rightarrow> (string \<times> 'a toml) list \<Rightarrow> error + 'a" where
  "decode_value float tbl =
     (case map_of tbl ''value'' of
        None \<Rightarrow> Inl (ValidationError ''Object missing required field `value`'')
      | Some (TFloat x) \<Rightarrow> Inr x
      | Some (TInteger i) \<Rightarrow>
          (case float i of
             None \<Rightarrow> Inl (ValidationError ''Expected `float`'')
           | Some x \<Rightarrow> Inr x)
      | Some _ \<Rightarrow> Inl (ValidationError ''Expected `float`''))"

definition decode_type :: "(string \<times> 'a toml) list \<Rightarrow> error + string" where
  "decode_type tbl =
     (case map_of tbl ''type'' of
        None \<Rightarrow> Inr ''value''
      | Some (TString s) \<Rightarrow>
          (if s = ''value'' \<or> s = ''multiply'' then Inr s
           else Inl (ValidationError (''Invalid enum value '' @ s)))
      | Some _ \<Rightarrow> Inl (ValidationError ''Expected `str`''))"

definition decode_name :: "(string \<times> 'a toml) list \<Rightarrow> error + string option" where
  "decode_name tbl =
     (case map_of tbl ''name'' of
        None \<Rightarrow> Inr None
      | Some (TString s) \<Rightarrow> Inr (Some s)
      | Some _ \<Rightarrow> Inl (ValidationError ''Expected `str | null`''))"

definition decode_accent :: "(string \<times> 'a toml) list \<Rightarrow> error + bool option" where
  "decode_accent tbl =
     (case map_of tbl ''accent'' of
        None \<Rightarrow> Inr None
      | Some (TBoolean b) \<Rightarrow> Inr (Some b)
      | Some _ \<Rightarrow> Inl (ValidationError ''Expected `bool | null`''))"

definition decode_Edit :: "(int \<Rightarrow> 'a option) \<Rightarrow> 'a toml \<Rightarrow> error + 'a Edit" where
  "decode_Edit float t =
     (case t of
        TTable tbl \<Rightarrow>
          (case decode_variable tbl of Inl e \<Rightarrow> Inl e | Inr var \<Rightarrow>
          (case decode_value float tbl of Inl e \<Rightarrow> Inl e | Inr val \<Rightarrow>
          (case decode_type tbl of Inl e \<Rightarrow> Inl e | Inr ty \<Rightarrow>
          (case decode_name tbl of Inl e \<Rightarrow> Inl e | Inr nm \<Rightarrow>
          (case decode_accent tbl of Inl e \<Rightarrow> Inl e | Inr acc \<Rightarrow>
             Inr \<lparr>edit_variable = var, edit_value = val, edit_type = ty,
                  edit_name = nm, edit_accent = acc\<rparr>)))))
      | _ \<Rightarrow> Inl (ValidationError ''Expected `object`''))"

definition decode_Edits :: "(int \<Rightarrow> 'a option) \<Rightarrow> 'a toml \<Rightarrow> error + 'a Edit list" where
  "decode_Edits float t =
     (case t of
        TArray ts \<Rightarrow> traverse (decode_Edit float) ts
      | _ \<Rightarrow> Inl (ValidationError ''Expected `array`''))"

definition decode_config ::
  "(int \<Rightarrow> 'a option) \<Rightarrow> 'a toml \<Rightarrow> error + (string, 'a Edit list) dict" where
  "decode_config float t =
     (case t of
        TTable entries \<Rightarrow>
          traverse (\<lambda>(k, v). case decode_Edits float v of
                                Inl e \<Rightarrow> Inl e
                              | Inr edits \<Rightarrow> Inr (k, edits)) entries
      | _ \<Rightarrow> Inl (ValidationError ''Expected `object`''))"

section \<open>The file system\<close>

text \<open>
  The files that exist, with their text; the directories that exist, by the name that a
  path has as its parent; and the record of every read and write the program has made,
  latest first. Writing a file creates or replaces it, and fails when its directory does
  not exist.
\<close>

datatype event = Read path | Write path

record world =
  files :: "path \<rightharpoonup> string"
  dirs :: "string set"
  trace :: "event list"

definition exists :: "world \<Rightarrow> path \<Rightarrow> bool" where
  "exists w p \<longleftrightarrow> files w p \<noteq> None"

definition read_text :: "world \<Rightarrow> path \<Rightarrow> (error + string) \<times> world" where
  "read_text w p =
     (case files w p of
        None \<Rightarrow> (Inl (FileNotFoundError p), w)
      | Some text \<Rightarrow> (Inr text, w\<lparr>trace := Read p # trace w\<rparr>))"

definition write_text :: "world \<Rightarrow> path \<Rightarrow> string \<Rightarrow> (error + unit) \<times> world" where
  "write_text w p text =
     (if path_parent p \<in> dirs w
      then (Inr (), w\<lparr>files := (files w)(p \<mapsto> text), trace := Write p # trace w\<rparr>)
      else (Inl (FileNotFoundError p), w))"

text \<open>
  \<^verbatim>\<open>Path.with_stem\<close>: the final component gets a new stem and keeps its suffix; a path
  whose final component is empty has no stem to replace.
\<close>

definition with_stem :: "path \<Rightarrow> string \<Rightarrow> error + path" where
  "with_stem p stem =
     (if path_stem p @ path_suffix p = [] then Inl (ValueError ''empty name'')
      else Inr (p\<lparr>path_stem := stem\<rparr>))"

section \<open>The palette builder\<close>

text \<open>
  What the program takes from outside: the colour library, the TOML parser of
  \<^verbatim>\<open>msgspec\<close> with its conversion of an integer to a float, and the dataset
  \<^verbatim>\<open>catppuccin.PALETTE\<close>.
\<close>

record ('a, 'c) env =
  colorlib :: "('a, 'c) coloraide"
  toml_parse :: "string \<Rightarrow> error + 'a toml"
  float_of_int :: "int \<Rightarrow> 'a option"
  PALETTE :: "models_Flavor list"

text \<open>
  \<^verbatim>\<open>Editor.edits\<close>: the configuration file is read and decoded. It is a cached
  property, so this happens once, at the first use.
\<close>

definition Editor_edits ::
  "('a, 'c) env \<Rightarrow> path \<Rightarrow> world \<Rightarrow> (error + (string, 'a Edit list) dict) \<times> world" where
  "Editor_edits env conf w =
     (case read_text w conf of
        (Inl e, w') \<Rightarrow> (Inl e, w')
      | (Inr bytes, w') \<Rightarrow>
          (case toml_parse env bytes of
             Inl e \<Rightarrow> (Inl e, w')
           | Inr t \<Rightarrow> (decode_config (float_of_int env) t, w')))"

text \<open>
  One entry of the comprehension in \<^verbatim>\<open>Editor.palette\<close>: the rule list is looked up under
  \<^verbatim>\<open>'dark'\<close> or \<^verbatim>\<open>'light'\<close> and the flavor is built with it.
\<close>

definition palette_entry ::
  "('a::times, 'c) env \<Rightarrow> (string, 'a Edit list) dict \<Rightarrow> models_Flavor
     \<Rightarrow> error + (string \<times> Flavor)" where
  "palette_entry env edits flavor =
     (case getitem edits (if flavor_dark flavor then ''dark'' else ''light'') of
        Inl e \<Rightarrow> Inl e
      | Inr es \<Rightarrow>
          (case Flavor_create (colorlib env) flavor es of
             Inl e \<Rightarrow> Inl e
           | Inr f \<Rightarrow> Inr (flavor_identifier flavor, f)))"

text \<open>
  \<^verbatim>\<open>Editor.palette\<close>. The configuration is first asked for inside the comprehension, so
  an empty dataset never reads it.
\<close>

definition Editor_palette ::
  "('a::times, 'c) env \<Rightarrow> path \<Rightarrow> world \<Rightarrow> (error + (string, Flavor) dict) \<times> world" where
  "Editor_palette env conf w =
     (if PALETTE env = [] then (Inr [], w)
      else
        (case Editor_edits env conf w of
           (Inl e, w') \<Rightarrow> (Inl e, w')
         | (Inr edits, w') \<Rightarrow>
             (case traverse (palette_entry env edits) (PALETTE env) of
                Inl e \<Rightarrow> (Inl e, w')
              | Inr entries \<Rightarrow> (Inr (dict_of entries), w'))))"

section \<open>The substitution command\<close>

text \<open>The dataclass \<^verbatim>\<open>Replace\<close>; \<open>conf\<close> is the path that \<^verbatim>\<open>Path(self.conf)\<close> makes.\<close>

record Replace =
  src :: path
  dst :: "path option"
  conf :: path

text \<open>\<^verbatim>\<open>Replace._dst\<close>. A path is never falsy, so \<^verbatim>\<open>self.dst or ...\<close> tests for \<^verbatim>\<open>None\<close>.\<close>

definition resolved_dst :: "Replace \<Rightarrow> error + path" where
  "resolved_dst self =
     (case dst self of
        Some d \<Rightarrow> Inr d
      | None \<Rightarrow> with_stem (src self) (path_stem (src self) @ ''-replaced''))"

definition Replace_dst :: "Replace \<Rightarrow> world \<Rightarrow> error + path" where
  "Replace_dst self w =
     (case resolved_dst self of
        Inl e \<Rightarrow> Inl e
      | Inr d \<Rightarrow> if exists w d then Inl (FileExistsError d) else Inr d)"

text \<open>
  The pairs that the generator \<^verbatim>\<open>Replace._colors\<close> yields from a palette: the items of
  every flavor's \<^verbatim>\<open>dict()\<close>, flavor after flavor.
\<close>

definition colors_of :: "(string, Flavor) dict \<Rightarrow> (string \<times> string) list" where
  "colors_of palette = concat (map (\<lambda>flavor. Flavor_dict flavor) (map snd palette))"

text \<open>\<^verbatim>\<open>dict(self._colors())\<close>, with the palette build that the generator starts with.\<close>

definition Replace_colors ::
  "('a::times, 'c) env \<Rightarrow> Replace \<Rightarrow> world \<Rightarrow> (error + (string, string) dict) \<times> world" where
  "Replace_colors env self w =
     (case Editor_palette env (conf self) w of
        (Inl e, w') \<Rightarrow> (Inl e, w')
      | (Inr palette, w') \<Rightarrow> (Inr (dict_of (colors_of palette)), w'))"

text \<open>\<^verbatim>\<open>Replace.__call__\<close>.\<close>

definition Replace_call ::
  "('a::times, 'c) env \<Rightarrow> Replace \<Rightarrow> world \<Rightarrow> (error + unit) \<times> world" where
  "Replace_call env self w =
     (case Replace_dst self w of
        Inl e \<Rightarrow> (Inl e, w)
      | Inr d \<Rightarrow>
          (case Replace_colors env self w of
             (Inl e, w1) \<Rightarrow> (Inl e, w1)
           | (Inr colors_dict, w1) \<Rightarrow>
               (case read_text w1 (src self) of
                  (Inl e, w2) \<Rightarrow> (Inl e, w2)
                | (Inr text, w2) \<Rightarrow> write_text w2 d (substitute colors_dict text))))"

section \<open>A small instance\<close>

text \<open>
  A colour library with one channel that can be set, a dataset of one dark flavor with one
  accent colour, and a parser that knows one document. The theorems below hold for every
  library, parser and dataset; this instance is where they are tried.
\<close>

definition example_coloraide :: "(real, real list) coloraide" where
  "example_coloraide =
     \<lparr>to_okhsl = (\<lambda>hex. if hex = ''#808080'' then Inr [0, 0, 1 / 2] else Inl (ColorError hex)),
      get_channel = (\<lambda>c name. if name = ''lightness'' \<and> length c = 3 then Inr (c ! 2)
                               else Inl (ColorError name)),
      put_channel = (\<lambda>c name v. c[2 := v]),
      to_hex = (\<lambda>c. if c = [0, 0, 1 / 2] then ''#808080''
                     else if c = [0, 0, 1] then ''#ffffff'' else ''#000000'')\<rparr>"

definition example_color :: models_Color where
  "example_color =
     \<lparr>color_name = ''Grey'', color_identifier = ''grey'', color_accent = True,
      color_hex = ''#808080''\<rparr>"

definition example_toml :: "real toml" where
  "example_toml =
     TTable [(''dark'', TArray [TTable [(''variable'', TString ''lightness''),
                                        (''value'', TInteger 1),
                                        (''accent'', TBoolean True)]]),
             (''light'', TArray [])]"

definition example_float :: "int \<Rightarrow> real option" where
  "example_float i = (if \<bar>i\<bar> < 2 ^ 1024 then Some (real_of_int i) else None)"

definition example_env :: "(real, real list) env" where
  "example_env =
     \<lparr>colorlib = example_coloraide,
      toml_parse = (\<lambda>bytes. if bytes = ''config'' then Inr example_toml
                           else Inl (DecodeError ''Invalid TOML'')),
      float_of_int = example_float,
      PALETTE = [\<lparr>flavor_identifier = ''mocha'', flavor_dark = True,
                  flavor_colors = [example_color]\<rparr>]\<rparr>"

definition example_src :: path where
  "example_src = \<lparr>path_parent = ''themes'', path_stem = ''theme'', path_suffix = ''.css''\<rparr>"

definition example_dst :: path where
  "example_dst =
     \<lparr>path_parent = ''themes'', path_stem = ''theme-replaced'', path_suffix = ''.css''\<rparr>"

definition example_conf :: path where
  "example_conf = \<lparr>path_parent = [], path_stem = ''config'', path_suffix = ''.toml''\<rparr>"

definition example_replace :: Replace where
  "example_replace = \<lparr>src = example_src, dst = None, conf = example_conf\<rparr>"

definition example_files :: "path \<rightharpoonup> string" where
  "example_files = [example_conf \<mapsto> ''config'', example_src \<mapsto> ''color: #808080;'']"

definition example_mocha :: Flavor where
  "example_mocha =
     \<lparr>flavor_name = ''mocha'',
      colors = [\<lparr>colors_name = ''grey'', colors_original = ''#808080'',
                 colors_custom = ''#ffffff'', colors_changed = True\<rparr>,
                \<lparr>colors_name = ''black'', colors_original = ''#000000'',
                 colors_custom = ''#000000'', colors_changed = False\<rparr>]\<rparr>"

definition example_latte :: Flavor where
  "example_latte =
     \<lparr>flavor_name = ''latte'',
      colors = [\<lparr>colors_name = ''grey'', colors_original = ''#808080'',
                 colors_custom = ''#eeeeee'', colors_changed = True\<rparr>]\<rparr>"

definition example_frappe :: Flavor where
  "example_frappe =
     \<lparr>flavor_name = ''frappe'',
      colors = [\<lparr>colors_name = ''black'', colors_original = ''#000000'',
                 colors_custom = ''#111111'', colors_changed = True\<rparr>]\<rparr>"

section \<open>Facts about the model\<close>


lemma map_of_setitem: "map_of (setitem d k v) = (map_of d)(k \<mapsto> v)"
  by (induction d) (auto simp: fun_eq_iff)

lemma keys_setitem:
  "map fst (setitem d k v) = (if k \<in> fst ` set d then map fst d else map fst d @ [k])"
  by (induction d) force+

lemma distinct_setitem: "distinct (map fst d) \<Longrightarrow> distinct (map fst (setitem d k v))"
  by (simp add: keys_setitem)

lemma distinct_foldl_setitem:
  "distinct (map fst d) \<Longrightarrow> distinct (map fst (foldl (\<lambda>d (k, v). setitem d k v) d ps))"
  by (induction ps arbitrary: d) (auto simp: distinct_setitem)

lemma map_of_foldl_setitem:
  "map_of (foldl (\<lambda>d (k, v). setitem d k v) d ps) = map_of d ++ map_of (rev ps)"
  by (induction ps arbitrary: d) (auto simp: map_of_setitem)

lemma distinct_dict_of: "distinct (map fst (dict_of ps))"
  by (simp add: dict_of_def distinct_foldl_setitem)

lemma map_of_dict_of: "map_of (dict_of ps) = map_of (rev ps)"
  by (simp add: dict_of_def map_of_foldl_setitem)

lemma dict_of_item_iff: "(k, v) \<in> set (dict_of ps) \<longleftrightarrow> map_of (rev ps) k = Some v"
  using distinct_dict_of [of ps] map_of_dict_of [of ps]
  by (metis map_of_eq_Some_iff)

lemma filter_key_once:
  "distinct (map fst xs) \<Longrightarrow> k \<in> fst ` set xs \<Longrightarrow> length (filter (\<lambda>item. fst item = k) xs) = 1"
proof (induction xs)
  case Nil
  then show ?case by simp
next
  case (Cons x xs)
  show ?case
  proof (cases "fst x = k")
    case True
    with Cons.prems have "k \<notin> fst ` set xs" by auto
    then have "filter (\<lambda>item. fst item = k) xs = []"
      by (force simp: filter_empty_conv)
    with True show ?thesis by simp
  next
    case False
    with Cons show ?thesis by auto
  qed
qed

lemma map_of_rev_distinct:
  "distinct (map fst xs) \<Longrightarrow> map_of (rev xs) k = map_of xs k"
proof (cases "map_of xs k")
  case None
  then have "k \<notin> fst ` set (rev xs)" by (simp add: map_of_eq_None_iff)
  then have "map_of (rev xs) k = None" by (simp add: map_of_eq_None_iff)
  with None show ?thesis by simp
next
  case (Some v)
  assume d: "distinct (map fst xs)"
  from Some have "(k, v) \<in> set (rev xs)" by (auto dest: map_of_SomeD)
  moreover from d have "distinct (map fst (rev xs))" by (simp add: rev_map [symmetric])
  ultimately have "map_of (rev xs) k = Some v" by simp
  with Some show ?thesis by simp
qed

lemma traverse_member:
  "traverse f xs = Inr ys \<Longrightarrow> y \<in> set ys \<Longrightarrow> \<exists>x \<in> set xs. f x = Inr y"
  by (induction xs arbitrary: ys) (auto split: sum.splits)

lemma decode_type_Inr:
  "decode_type tbl = Inr ty \<Longrightarrow> ty = ''value'' \<or> ty = ''multiply''"
  by (auto simp: decode_type_def split: option.splits toml.splits if_splits)

lemma decode_Edit_type:
  "decode_Edit float t = Inr e \<Longrightarrow> edit_type e = ''value'' \<or> edit_type e = ''multiply''"
  by (auto simp: decode_Edit_def split: toml.splits sum.splits dest: decode_type_Inr)

lemma decode_Edits_type:
  assumes "decode_Edits float t = Inr es" "e \<in> set es"
  shows "edit_type e = ''value'' \<or> edit_type e = ''multiply''"
proof -
  from assms(1) obtain ts where "traverse (decode_Edit float) ts = Inr es"
    by (auto simp: decode_Edits_def split: toml.splits)
  with assms(2) obtain x where "decode_Edit float x = Inr e"
    by (blast dest: traverse_member)
  then show ?thesis by (rule decode_Edit_type)
qed

lemma decode_config_type:
  assumes "decode_config float t = Inr cfg" "(k, es) \<in> set cfg" "e \<in> set es"
  shows "edit_type e = ''value'' \<or> edit_type e = ''multiply''"
proof -
  let ?entry = "\<lambda>(k, v). case decode_Edits float v of
                            Inl e \<Rightarrow> Inl e
                          | Inr edits \<Rightarrow> Inr (k, edits)"
  from assms(1) obtain entries where "traverse ?entry entries = Inr cfg"
    by (auto simp: decode_config_def split: toml.splits)
  with assms(2) obtain x where "?entry x = Inr (k, es)"
    by (blast dest: traverse_member)
  then obtain v where "decode_Edits float v = Inr es"
    by (cases x) (auto split: sum.splits)
  from this assms(3) show ?thesis by (rule decode_Edits_type)
qed

lemma apply_edits_no_match:
  "\<forall>e \<in> set edits. \<not> matches e color \<Longrightarrow> apply_edits lib color c edits = Inr c"
  by (induction edits) auto

lemma Colors_create_no_match:
  assumes "\<forall>e \<in> set edits. \<not> matches e color" "to_okhsl lib (color_hex color) = Inr c"
  shows "Colors_create lib color edits =
           Inr \<lparr>colors_name = color_identifier color, colors_original = color_hex color,
                colors_custom = to_hex lib c,
                colors_changed = (color_hex color \<noteq> to_hex lib c)\<rparr>"
  using assms by (simp add: Colors_create_def apply_edits_no_match Let_def)

lemma Colors_create_changed:
  "Colors_create lib color edits = Inr c \<Longrightarrow>
     colors_changed c = (colors_original c \<noteq> colors_custom c)"
  by (auto simp: Colors_create_def Let_def split: sum.splits)

lemma Flavor_create_changed:
  assumes "Flavor_create lib flavor edits = Inr f"
  shows "\<forall>c \<in> set (colors f). colors_changed c = (colors_original c \<noteq> colors_custom c)"
proof
  fix c assume c: "c \<in> set (colors f)"
  from assms have "traverse (\<lambda>c. Colors_create lib c edits) (flavor_colors flavor) = Inr (colors f)"
    by (auto simp: Flavor_create_def split: sum.splits)
  with c obtain x where "Colors_create lib x edits = Inr c"
    by (blast dest: traverse_member)
  then show "colors_changed c = (colors_original c \<noteq> colors_custom c)"
    by (rule Colors_create_changed)
qed

lemma map_of_rev_filter_Some_iff:
  "map_of (rev (map g (filter P cs))) k = Some v \<longleftrightarrow>
     (\<exists>cs1 c cs2. cs = cs1 @ c # cs2 \<and> P c \<and> g c = (k, v) \<and>
        (\<forall>c' \<in> set cs2. P c' \<longrightarrow> fst (g c') \<noteq> k))"
  (is "?L cs \<longleftrightarrow> ?R cs")
proof (induction cs rule: rev_induct)
  case Nil
  then show ?case by simp
next
  case (snoc x cs)
  show ?case
  proof (cases "P x \<and> fst (g x) = k")
    case True
    have "?R (cs @ [x]) \<longleftrightarrow> snd (g x) = v"
    proof
      assume "?R (cs @ [x])"
      then obtain cs1 c cs2 where eq: "cs @ [x] = cs1 @ c # cs2" and c: "P c" "g c = (k, v)"
        and later: "\<forall>c' \<in> set cs2. P c' \<longrightarrow> fst (g c') \<noteq> k"
        by blast
      show "snd (g x) = v"
      proof (cases cs2 rule: rev_cases)
        case Nil
        with eq c show ?thesis by simp
      next
        case (snoc qs q)
        with eq have "q = x" by simp
        with snoc later True show ?thesis by simp
      qed
    next
      assume "snd (g x) = v"
      with True have "cs @ [x] = cs @ x # [] \<and> P x \<and> g x = (k, v)"
        by (cases "g x") simp
      then show "?R (cs @ [x])" by (metis empty_iff list.set(1))
    qed
    with True show ?thesis by (cases "g x") auto
  next
    case False
    have "?R (cs @ [x]) \<longleftrightarrow> ?R cs"
    proof
      assume "?R (cs @ [x])"
      then obtain cs1 c cs2 where eq: "cs @ [x] = cs1 @ c # cs2" and c: "P c" "g c = (k, v)"
        and later: "\<forall>c' \<in> set cs2. P c' \<longrightarrow> fst (g c') \<noteq> k"
        by blast
      show "?R cs"
      proof (cases cs2 rule: rev_cases)
        case Nil
        with eq c False show ?thesis by simp
      next
        case (snoc qs q)
        with eq have "cs = cs1 @ c # qs" by simp
        moreover from snoc later have "\<forall>c' \<in> set qs. P c' \<longrightarrow> fst (g c') \<noteq> k" by simp
        ultimately show ?thesis using c by blast
      qed
    next
      assume "?R cs"
      then obtain cs1 c cs2 where "cs = cs1 @ c # cs2" and c: "P c" "g c = (k, v)"
        and later: "\<forall>c' \<in> set cs2. P c' \<longrightarrow> fst (g c') \<noteq> k"
        by blast
      with False have "cs @ [x] = cs1 @ c # (cs2 @ [x]) \<and>
        (\<forall>c' \<in> set (cs2 @ [x]). P c' \<longrightarrow> fst (g c') \<noteq> k)"
        by auto
      with c show "?R (cs @ [x])" by blast
    qed
    with False snoc.IH show ?thesis by (cases "g x") (auto simp: map_add_def)
  qed
qed

section \<open>Rule matching\<close>

text \<open>
  C5. A rule matches a colour exactly when its name filter is set and equals the
  colour's name or its identifier, or its accent filter is set and equals the colour's
  accent flag. The two filters are joined by "or": one of them matching is enough, also
  when both are set.
\<close>

theorem matches_iff:
  "matches edit color \<longleftrightarrow>
     (\<exists>n. edit_name edit = Some n \<and> (n = color_name color \<or> n = color_identifier color))
     \<or> (\<exists>a. edit_accent edit = Some a \<and> a = color_accent color)"
  by (auto simp: matches_def)

text \<open>
  C1, as stated, fails: a rule with neither filter set does not match the accent colour
  Rosewater. \<^verbatim>\<open>None\<close> is not one of the two strings and \<^verbatim>\<open>None\<close> is not equal to a
  boolean.
\<close>

theorem unset_filters_counterexample:
  "\<not> matches \<lparr>edit_variable = ''lightness'', edit_value = (1 / 2 :: real), edit_type = ''value'',
               edit_name = None, edit_accent = None\<rparr>
             \<lparr>color_name = ''Rosewater'', color_identifier = ''rosewater'',
              color_accent = True, color_hex = ''#f5e0dc''\<rparr>"
  by (simp add: matches_def)

text \<open>
  C1, amended. A rule whose name filter and accent filter are both unset matches no
  colour: the loop of \<^verbatim>\<open>_Colors.create\<close> passes over it and the colour object is the same
  as without the rule.
\<close>

theorem unset_filters_never_match:
  assumes "edit_name edit = None" and "edit_accent edit = None"
  shows "\<not> matches edit color
         \<and> apply_edits lib color c (edit # edits) = apply_edits lib color c edits"
  using assms by (simp add: matches_def)

theorem unset_filters_never_match_witness:
  "edit_name \<lparr>edit_variable = ''lightness'', edit_value = (1 :: real), edit_type = ''value'',
              edit_name = None, edit_accent = None\<rparr> = None
   \<and> edit_accent \<lparr>edit_variable = ''lightness'', edit_value = (1 :: real), edit_type = ''value'',
              edit_name = None, edit_accent = None\<rparr> = None
   \<and> \<not> matches \<lparr>edit_variable = ''lightness'', edit_value = (1 :: real), edit_type = ''value'',
              edit_name = None, edit_accent = None\<rparr> example_color
   \<and> apply_edits example_coloraide example_color [0, 0, 1 / 2]
        [\<lparr>edit_variable = ''lightness'', edit_value = (1 :: real), edit_type = ''value'',
              edit_name = None, edit_accent = None\<rparr>] = Inr [0, 0, 1 / 2]"
  using unset_filters_never_match
    [of "\<lparr>edit_variable = ''lightness'', edit_value = (1 :: real), edit_type = ''value'',
              edit_name = None, edit_accent = None\<rparr>" example_color example_coloraide
        "[0, 0, 1 / 2]" "[]"]
  by simp

section \<open>Rule application\<close>

text \<open>
  C8. In absolute mode (\<^verbatim>\<open>'value'\<close>) a rule returns its own value, whatever the current
  channel value is; in multiply mode it returns the current channel value multiplied by
  the rule's value.
\<close>

theorem Edit_call_modes:
  "(edit_type self = ''value'' \<longrightarrow> Edit_call self v = Inr (edit_value self))
   \<and> (edit_type self = ''multiply'' \<longrightarrow> Edit_call self v = Inr (v * edit_value self))"
  by (simp add: Edit_call_def)

theorem Edit_call_modes_witness:
  "edit_type \<lparr>edit_variable = ''lightness'', edit_value = (1 / 2 :: real), edit_type = ''value'',
              edit_name = None, edit_accent = Some True\<rparr> = ''value''
   \<and> edit_type \<lparr>edit_variable = ''lightness'', edit_value = (1 / 2 :: real),
                edit_type = ''multiply'', edit_name = None, edit_accent = Some True\<rparr>
       = ''multiply''
   \<and> Edit_call \<lparr>edit_variable = ''lightness'', edit_value = (1 / 2 :: real), edit_type = ''value'',
              edit_name = None, edit_accent = Some True\<rparr> (4 / 5) = Inr (1 / 2)
   \<and> Edit_call \<lparr>edit_variable = ''lightness'', edit_value = (1 / 2 :: real),
                edit_type = ''multiply'', edit_name = None, edit_accent = Some True\<rparr> (4 / 5)
       = Inr (2 / 5)"
  using Edit_call_modes
    [of "\<lparr>edit_variable = ''lightness'', edit_value = (1 / 2 :: real), edit_type = ''value'',
              edit_name = None, edit_accent = Some True\<rparr>" "4 / 5"]
    Edit_call_modes
    [of "\<lparr>edit_variable = ''lightness'', edit_value = (1 / 2 :: real),
                edit_type = ''multiply'', edit_name = None, edit_accent = Some True\<rparr>" "4 / 5"]
  by simp

text \<open>
  C9. An absolute-mode rule is idempotent: applied to any channel value it returns the
  rule's value, and applied again to that result it returns the same. The channel is
  overwritten, not accumulated.
\<close>

theorem absolute_idempotent:
  assumes "edit_type self = ''value''"
  shows "\<exists>r. Edit_call self v = Inr r \<and> Edit_call self r = Inr r \<and> r = edit_value self"
  using assms by (simp add: Edit_call_def)

theorem absolute_idempotent_witness:
  "edit_type \<lparr>edit_variable = ''lightness'', edit_value = (1 / 2 :: real), edit_type = ''value'',
              edit_name = None, edit_accent = Some True\<rparr> = ''value''
   \<and> (\<exists>r. Edit_call \<lparr>edit_variable = ''lightness'', edit_value = (1 / 2 :: real),
                      edit_type = ''value'', edit_name = None, edit_accent = Some True\<rparr> (4 / 5)
             = Inr r
          \<and> Edit_call \<lparr>edit_variable = ''lightness'', edit_value = (1 / 2 :: real),
                      edit_type = ''value'', edit_name = None, edit_accent = Some True\<rparr> r
             = Inr r
          \<and> r = 1 / 2)"
  using absolute_idempotent
    [of "\<lparr>edit_variable = ''lightness'', edit_value = (1 / 2 :: real), edit_type = ''value'',
              edit_name = None, edit_accent = Some True\<rparr>" "4 / 5"]
  by simp

section \<open>Substitution\<close>



section \<open>The diff view\<close>

text \<open>
  C7, as stated, fails: when two changed colours of a flavor have the same original hex
  value, the view keeps one entry for that value, with the custom value of the later
  colour, and the pair of the earlier colour is not in it. Both colours below have
  \<open>changed\<close> equal to "original differs from custom".
\<close>

theorem Flavor_dict_duplicate_counterexample:
  "Flavor_dict
     \<lparr>flavor_name = ''mocha'',
      colors = [\<lparr>colors_name = ''red'', colors_original = ''#111111'',
                 colors_custom = ''#222222'', colors_changed = True\<rparr>,
                \<lparr>colors_name = ''maroon'', colors_original = ''#111111'',
                 colors_custom = ''#333333'', colors_changed = True\<rparr>]\<rparr>
   = [(''#111111'', ''#333333'')]"
  by (simp add: Flavor_dict_def dict_of_def)

lemma Flavor_dict_item_iff:
  "(k, v) \<in> set (Flavor_dict self) \<longleftrightarrow>
     (\<exists>cs1 c cs2. colors self = cs1 @ c # cs2 \<and> colors_changed c
        \<and> colors_original c = k \<and> colors_custom c = v
        \<and> (\<forall>c' \<in> set cs2. colors_changed c' \<longrightarrow> colors_original c' \<noteq> k))"
  unfolding Flavor_dict_def dict_of_item_iff map_of_rev_filter_Some_iff
  by auto

text \<open>
  C7, amended. For a flavor whose colours have \<open>changed\<close> equal to "original differs from
  custom", the diff view holds, for every original hex value of a changed colour, the pair
  of the last changed colour with that original value, and nothing else; no entry has
  equal original and custom values; and when the original values of the changed colours
  are pairwise distinct, the entries are exactly the pairs of the changed colours.
\<close>

theorem Flavor_dict_entries:
  assumes "\<forall>c \<in> set (colors self). colors_changed c = (colors_original c \<noteq> colors_custom c)"
  shows "((k, v) \<in> set (Flavor_dict self) \<longleftrightarrow>
           (\<exists>cs1 c cs2. colors self = cs1 @ c # cs2 \<and> colors_changed c
              \<and> colors_original c = k \<and> colors_custom c = v
              \<and> (\<forall>c' \<in> set cs2. colors_changed c' \<longrightarrow> colors_original c' \<noteq> k)))
         \<and> ((k, v) \<in> set (Flavor_dict self) \<longrightarrow> k \<noteq> v)
         \<and> (distinct (map colors_original (filter colors_changed (colors self))) \<longrightarrow>
              set (Flavor_dict self) =
                {(colors_original c, colors_custom c) | c. c \<in> set (colors self) \<and> colors_changed c})"
proof (intro conjI impI)
  show "(k, v) \<in> set (Flavor_dict self) \<longleftrightarrow>
           (\<exists>cs1 c cs2. colors self = cs1 @ c # cs2 \<and> colors_changed c
              \<and> colors_original c = k \<and> colors_custom c = v
              \<and> (\<forall>c' \<in> set cs2. colors_changed c' \<longrightarrow> colors_original c' \<noteq> k))"
    by (rule Flavor_dict_item_iff)
next
  assume "(k, v) \<in> set (Flavor_dict self)"
  then obtain cs1 c cs2 where "colors self = cs1 @ c # cs2" "colors_changed c"
    "colors_original c = k" "colors_custom c = v"
    unfolding Flavor_dict_item_iff by blast
  with assms show "k \<noteq> v" by auto
next
  assume d: "distinct (map colors_original (filter colors_changed (colors self)))"
  show "set (Flavor_dict self) =
          {(colors_original c, colors_custom c) | c. c \<in> set (colors self) \<and> colors_changed c}"
  proof (intro set_eqI iffI)
    fix x assume "x \<in> set (Flavor_dict self)"
    then have "(fst x, snd x) \<in> set (Flavor_dict self)" by simp
    then obtain cs1 c cs2 where "colors self = cs1 @ c # cs2" "colors_changed c"
      "colors_original c = fst x" "colors_custom c = snd x"
      unfolding Flavor_dict_item_iff by blast
    then have "colors self = cs1 @ c # cs2" "colors_changed c"
      "x = (colors_original c, colors_custom c)"
      by simp_all
    then show "x \<in> {(colors_original c, colors_custom c) | c.
                      c \<in> set (colors self) \<and> colors_changed c}"
      by auto
  next
    fix x assume "x \<in> {(colors_original c, colors_custom c) | c.
                      c \<in> set (colors self) \<and> colors_changed c}"
    then obtain c where x: "x = (colors_original c, colors_custom c)"
      and c: "c \<in> set (colors self)" "colors_changed c"
      by blast
    from c(1) obtain cs1 cs2 where split: "colors self = cs1 @ c # cs2"
      by (auto simp: in_set_conv_decomp)
    with d c(2) have notin: "colors_original c \<notin> colors_original ` {x \<in> set cs2. colors_changed x}"
      by simp
    have "\<forall>c' \<in> set cs2. colors_changed c' \<longrightarrow> colors_original c' \<noteq> colors_original c"
    proof (intro ballI impI notI)
      fix c' assume "c' \<in> set cs2" "colors_changed c'" "colors_original c' = colors_original c"
      then have "c' \<in> {x \<in> set cs2. colors_changed x}" "colors_original c = colors_original c'"
        by simp_all
      then have "colors_original c \<in> colors_original ` {x \<in> set cs2. colors_changed x}"
        by (simp only: image_eqI)
      with notin show False by simp
    qed
    with split c(2) x show "x \<in> set (Flavor_dict self)"
      unfolding x Flavor_dict_item_iff by blast
  qed
qed

theorem Flavor_dict_entries_witness:
  "list_all (\<lambda>c. colors_changed c = (colors_original c \<noteq> colors_custom c))
     (colors example_mocha)
   \<and> Flavor_dict example_mocha = [(''#808080'', ''#ffffff'')]
   \<and> (''#808080'', ''#ffffff'') \<in> set (Flavor_dict example_mocha)
   \<and> ''#808080'' \<noteq> ''#ffffff''
   \<and> distinct (map colors_original (filter colors_changed (colors example_mocha)))
   \<and> set (Flavor_dict example_mocha) =
       {(colors_original c, colors_custom c) | c. c \<in> set (colors example_mocha) \<and> colors_changed c}"
proof -
  have h: "\<forall>c \<in> set (colors example_mocha). colors_changed c = (colors_original c \<noteq> colors_custom c)"
    by (simp add: example_mocha_def)
  from h have h': "list_all (\<lambda>c. colors_changed c = (colors_original c \<noteq> colors_custom c))
                     (colors example_mocha)"
    by (simp only: list_all_iff)
  have d: "distinct (map colors_original (filter colors_changed (colors example_mocha)))"
    by (simp add: example_mocha_def)
  have e: "Flavor_dict example_mocha = [(''#808080'', ''#ffffff'')]"
    by (simp add: example_mocha_def Flavor_dict_def dict_of_def)
  have m: "(''#808080'', ''#ffffff'') \<in> set (Flavor_dict example_mocha)"
    by (simp add: e)
  note t = Flavor_dict_entries [OF h, of "''#808080''" "''#ffffff''"]
  from t m have n: "''#808080'' \<noteq> ''#ffffff''" by blast
  from t d have s: "set (Flavor_dict example_mocha) =
       {(colors_original c, colors_custom c) | c. c \<in> set (colors example_mocha) \<and> colors_changed c}"
    by blast
  show ?thesis
    apply (intro conjI)
         apply (rule h')
        apply (rule e)
       apply (rule m)
      apply (rule n)
     apply (rule d)
    apply (rule s)
    done
qed

section \<open>The merged mapping\<close>

lemma colors_of_append: "colors_of (p @ q) = colors_of p @ colors_of q"
  by (simp add: colors_of_def)

lemma colors_of_Cons: "colors_of ((n, f) # q) = Flavor_dict f @ colors_of q"
  by (simp add: colors_of_def)

lemma colors_of_no_key:
  "\<forall>(n, g) \<in> set p. map_of (Flavor_dict g) k = None \<Longrightarrow> k \<notin> fst ` set (colors_of p)"
  by (induction p) (auto simp: colors_of_def map_of_eq_None_iff)

text \<open>
  C10. In the mapping that the substitution command builds from the diff views of all
  flavors, an original hex value that several flavors yield has the custom value of the
  last flavor that yields it, and it is one item of the mapping, so the loop replaces it
  once; the keys of the mapping are pairwise distinct.
\<close>

theorem merged_colors_last_wins:
  assumes "palette = before @ (name, flavor) # after"
    and "map_of (Flavor_dict flavor) k = Some v"
    and "\<forall>(n, g) \<in> set after. map_of (Flavor_dict g) k = None"
  shows "map_of (dict_of (colors_of palette)) k = Some v
         \<and> length (filter (\<lambda>item. fst item = k) (dict_of (colors_of palette))) = 1
         \<and> distinct (map fst (dict_of (colors_of palette)))"
proof -
  have "distinct (map fst (Flavor_dict flavor))"
    by (simp add: Flavor_dict_def distinct_dict_of)
  then have F: "map_of (rev (Flavor_dict flavor)) k = Some v"
    using assms(2) by (simp add: map_of_rev_distinct)
  from assms(3) have "k \<notin> fst ` set (rev (colors_of after))"
    using colors_of_no_key [of after k] by simp
  then have B: "map_of (rev (colors_of after)) k = None"
    by (simp add: map_of_eq_None_iff)
  have look: "map_of (dict_of (colors_of palette)) k = Some v"
    using F B by (simp add: assms(1) map_of_dict_of colors_of_append colors_of_Cons map_add_def)
  then have "k \<in> fst ` set (dict_of (colors_of palette))"
    by (force dest: map_of_SomeD)
  then have "length (filter (\<lambda>item. fst item = k) (dict_of (colors_of palette))) = 1"
    using distinct_dict_of by (rule filter_key_once [rotated])
  with look show ?thesis by (simp add: distinct_dict_of)
qed

theorem merged_colors_last_wins_witness:
  "[(''mocha'', example_mocha), (''latte'', example_latte), (''frappe'', example_frappe)]
     = [(''mocha'', example_mocha)] @ (''latte'', example_latte) # [(''frappe'', example_frappe)]
   \<and> map_of (Flavor_dict example_mocha) ''#808080'' = Some ''#ffffff''
   \<and> map_of (Flavor_dict example_latte) ''#808080'' = Some ''#eeeeee''
   \<and> map_of (Flavor_dict example_frappe) ''#808080'' = None
   \<and> map_of (dict_of (colors_of
         [(''mocha'', example_mocha), (''latte'', example_latte), (''frappe'', example_frappe)]))
         ''#808080'' = Some ''#eeeeee''
   \<and> length (filter (\<lambda>item. fst item = ''#808080'') (dict_of (colors_of
         [(''mocha'', example_mocha), (''latte'', example_latte), (''frappe'', example_frappe)])))
       = 1"
proof -
  have p: "[(''mocha'', example_mocha), (''latte'', example_latte), (''frappe'', example_frappe)]
     = [(''mocha'', example_mocha)] @ (''latte'', example_latte) # [(''frappe'', example_frappe)]"
    by simp
  have m: "map_of (Flavor_dict example_mocha) ''#808080'' = Some ''#ffffff''"
    by (simp add: example_mocha_def Flavor_dict_def dict_of_def)
  have l: "map_of (Flavor_dict example_latte) ''#808080'' = Some ''#eeeeee''"
    by (simp add: example_latte_def Flavor_dict_def dict_of_def)
  have f: "\<forall>(n, g) \<in> set [(''frappe'', example_frappe)]. map_of (Flavor_dict g) ''#808080'' = None"
    by (simp add: example_frappe_def Flavor_dict_def dict_of_def)
  note t = merged_colors_last_wins [OF p l f]
  show ?thesis
    apply (intro conjI)
         apply (rule p)
        apply (rule m)
       apply (rule l)
      apply (simp add: example_frappe_def Flavor_dict_def dict_of_def)
     apply (rule t [THEN conjunct1])
    apply (rule t [THEN conjunct2, THEN conjunct1])
    done
qed

section \<open>Loading the configuration\<close>

lemma decode_example_toml:
  "decode_config example_float example_toml =
     Inr [(''dark'', [\<lparr>edit_variable = ''lightness'', edit_value = 1, edit_type = ''value'',
                       edit_name = None, edit_accent = Some True\<rparr>]),
          (''light'', [])]"
  by (simp add: example_toml_def decode_config_def decode_Edits_def decode_Edit_def
        decode_variable_def decode_value_def decode_type_def decode_name_def decode_accent_def
        example_float_def)

lemma decode_type_invalid:
  assumes "map_of tbl ''type'' = Some (TString s)" "s \<noteq> ''value''" "s \<noteq> ''multiply''"
  shows "decode_type tbl = Inl (ValidationError (''Invalid enum value '' @ s))"
  using assms by (simp add: decode_type_def)

lemma decode_variable_error:
  "decode_variable tbl = Inl e \<Longrightarrow> \<exists>m. e = ValidationError m"
  by (auto simp: decode_variable_def split: option.splits toml.splits)

lemma decode_value_error:
  "decode_value float tbl = Inl e \<Longrightarrow> \<exists>m. e = ValidationError m"
  by (auto simp: decode_value_def split: option.splits toml.splits)

lemma decode_Edit_invalid:
  assumes "map_of tbl ''type'' = Some (TString s)" "s \<noteq> ''value''" "s \<noteq> ''multiply''"
  shows "\<exists>m. decode_Edit float (TTable tbl) = Inl (ValidationError m)"
proof (cases "decode_variable tbl")
  case (Inl e)
  then show ?thesis by (auto simp: decode_Edit_def dest: decode_variable_error)
next
  case var: (Inr var)
  show ?thesis
  proof (cases "decode_value float tbl")
    case (Inl e)
    with var show ?thesis by (auto simp: decode_Edit_def dest: decode_value_error)
  next
    case (Inr val)
    with var decode_type_invalid [OF assms] show ?thesis by (simp add: decode_Edit_def)
  qed
qed

lemma decode_type_error:
  "decode_type tbl = Inl e \<Longrightarrow> \<exists>m. e = ValidationError m"
  by (auto simp: decode_type_def split: option.splits toml.splits if_splits)

lemma decode_name_error:
  "decode_name tbl = Inl e \<Longrightarrow> \<exists>m. e = ValidationError m"
  by (auto simp: decode_name_def split: option.splits toml.splits)

lemma decode_accent_error:
  "decode_accent tbl = Inl e \<Longrightarrow> \<exists>m. e = ValidationError m"
  by (auto simp: decode_accent_def split: option.splits toml.splits)

lemma decode_Edit_error:
  "decode_Edit float t = Inl e \<Longrightarrow> \<exists>m. e = ValidationError m"
  by (auto simp: decode_Edit_def split: toml.splits sum.splits
        dest: decode_variable_error decode_value_error decode_type_error
              decode_name_error decode_accent_error)

lemma traverse_fails:
  assumes "x \<in> set xs" and "\<exists>m. f x = Inl (ValidationError m)"
    and "\<And>y e. f y = Inl e \<Longrightarrow> \<exists>m. e = ValidationError m"
  shows "\<exists>m. traverse f xs = Inl (ValidationError m)"
  using assms(1)
proof (induction xs)
  case Nil
  then show ?case by simp
next
  case (Cons y ys)
  show ?case
  proof (cases "f y")
    case (Inl e)
    with assms(3) show ?thesis by auto
  next
    case fy: (Inr z)
    with Cons.prems assms(2) have "x \<in> set ys" by auto
    then obtain m where "traverse f ys = Inl (ValidationError m)"
      using Cons.IH by blast
    with fy show ?thesis by simp
  qed
qed

lemma traverse_error:
  assumes "traverse f xs = Inl e" and "\<And>y e. f y = Inl e \<Longrightarrow> \<exists>m. e = ValidationError m"
  shows "\<exists>m. e = ValidationError m"
  using assms(1)
proof (induction xs)
  case Nil
  then show ?case by simp
next
  case (Cons y ys)
  then show ?case using assms(2) [of y]
    by (auto split: sum.splits)
qed

lemma decode_Edits_invalid:
  assumes "TTable tbl \<in> set rules" "map_of tbl ''type'' = Some (TString s)"
    "s \<noteq> ''value''" "s \<noteq> ''multiply''"
  shows "\<exists>m. decode_Edits float (TArray rules) = Inl (ValidationError m)"
proof -
  have "\<exists>m. decode_Edit float (TTable tbl) = Inl (ValidationError m)"
    using assms(2-4) by (rule decode_Edit_invalid)
  with assms(1) have "\<exists>m. traverse (decode_Edit float) rules = Inl (ValidationError m)"
    by (rule traverse_fails) (rule decode_Edit_error)
  then show ?thesis by (simp add: decode_Edits_def)
qed

lemma decode_Edits_error:
  "decode_Edits float t = Inl e \<Longrightarrow> \<exists>m. e = ValidationError m"
  by (cases t) (auto simp: decode_Edits_def elim: traverse_error dest: decode_Edit_error)

lemma decode_config_invalid:
  assumes "(k, TArray rules) \<in> set entries" "TTable tbl \<in> set rules"
    "map_of tbl ''type'' = Some (TString s)" "s \<noteq> ''value''" "s \<noteq> ''multiply''"
  shows "\<exists>m. decode_config float (TTable entries) = Inl (ValidationError m)"
proof -
  let ?entry = "\<lambda>(k, v). case decode_Edits float v of
                            Inl e \<Rightarrow> Inl e
                          | Inr edits \<Rightarrow> Inr (k, edits)"
  from decode_Edits_invalid [OF assms(2-5), of float]
  have bad: "\<exists>m. ?entry (k, TArray rules) = Inl (ValidationError m)"
    by auto
  have err: "\<exists>m. e = ValidationError m" if "?entry y = Inl e" for y e
    using that by (cases y) (auto split: sum.splits dest: decode_Edits_error)
  from traverse_fails [of "(k, TArray rules)" entries ?entry, OF assms(1) bad err]
  show ?thesis by (simp add: decode_config_def)
qed

text \<open>
  C3, as stated, fails: a configuration whose rule has the mode \<^verbatim>\<open>add\<close> is not accepted at
  load time. The decoder converts to \<^verbatim>\<open>Literal['value', 'multiply']\<close> and answers with a
  \<open>ValidationError\<close>, before any colour is processed.
\<close>

theorem invalid_mode_counterexample:
  "decode_config example_float
     (TTable [(''dark'', TArray [TTable [(''variable'', TString ''lightness''),
                                         (''value'', TFloat (1 / 2)),
                                         (''type'', TString ''add''),
                                         (''accent'', TBoolean True)]]),
              (''light'', TArray [])])
   = Inl (ValidationError ''Invalid enum value add'')"
  by (simp add: decode_config_def decode_Edits_def decode_Edit_def decode_variable_def
        decode_value_def decode_type_def decode_name_def decode_accent_def)

text \<open>
  C3, amended. A configuration that holds a rule whose mode is a string other than
  \<^verbatim>\<open>value\<close> and \<^verbatim>\<open>multiply\<close> is rejected when it is decoded: the decoder answers with a
  \<open>ValidationError\<close>, and so does \<^verbatim>\<open>Editor.edits\<close> on a file with such a document. Every
  rule of a configuration that loads has the mode \<^verbatim>\<open>value\<close> or \<^verbatim>\<open>multiply\<close>, and applying
  it to a channel value returns a value. A rule object built with another mode fails with
  \<open>ValueError\<close> when it is applied.
\<close>

theorem invalid_mode_rejected_at_load:
  "((k', TArray rules) \<in> set entries \<and> TTable tbl \<in> set rules
      \<and> map_of tbl ''type'' = Some (TString s) \<and> s \<noteq> ''value'' \<and> s \<noteq> ''multiply'' \<longrightarrow>
      (\<exists>m. decode_config float (TTable entries) = Inl (ValidationError m))
      \<and> (files w p = Some bytes \<and> toml_parse env bytes = Inr (TTable entries) \<longrightarrow>
           (\<exists>m. fst (Editor_edits env p w) = Inl (ValidationError m))))
   \<and> (decode_config float t = Inr cfg \<and> (k, edits) \<in> set cfg \<and> edit \<in> set edits \<longrightarrow>
        (edit_type edit = ''value'' \<or> edit_type edit = ''multiply'')
        \<and> (\<exists>r. Edit_call edit v = Inr r))
   \<and> (edit_type self \<noteq> ''value'' \<and> edit_type self \<noteq> ''multiply'' \<longrightarrow>
        Edit_call self v' = Inl (ValueError (edit_type self)))"
proof (intro conjI impI)
  assume bad: "(k', TArray rules) \<in> set entries \<and> TTable tbl \<in> set rules
      \<and> map_of tbl ''type'' = Some (TString s) \<and> s \<noteq> ''value'' \<and> s \<noteq> ''multiply''"
  then show "\<exists>m. decode_config float (TTable entries) = Inl (ValidationError m)"
    by (blast intro: decode_config_invalid)
  assume "files w p = Some bytes \<and> toml_parse env bytes = Inr (TTable entries)"
  moreover from bad obtain m where
    "decode_config (float_of_int env) (TTable entries) = Inl (ValidationError m)"
    using decode_config_invalid [of k' rules entries tbl s "float_of_int env"] by blast
  ultimately show "\<exists>m. fst (Editor_edits env p w) = Inl (ValidationError m)"
    by (simp add: Editor_edits_def read_text_def)
next
  assume a: "decode_config float t = Inr cfg \<and> (k, edits) \<in> set cfg \<and> edit \<in> set edits"
  then show ty: "edit_type edit = ''value'' \<or> edit_type edit = ''multiply''"
    by (blast dest: decode_config_type)
  then show "\<exists>r. Edit_call edit v = Inr r"
    by (auto simp: Edit_call_def Let_def)
next
  assume "edit_type self \<noteq> ''value'' \<and> edit_type self \<noteq> ''multiply''"
  then show "Edit_call self v' = Inl (ValueError (edit_type self))"
    by (simp add: Edit_call_def)
qed

theorem invalid_mode_rejected_at_load_witness:
  "(''dark'', TArray [TTable [(''variable'', TString ''lightness''),
                              (''value'', TFloat (1 / 2 :: real)),
                              (''type'', TString ''scale'')]])
     \<in> set [(''dark'', TArray [TTable [(''variable'', TString ''lightness''),
                 (''value'', TFloat (1 / 2)), (''type'', TString ''scale'')]]),
             (''light'', TArray [])]
   \<and> map_of [(''variable'', TString ''lightness''), (''value'', TFloat (1 / 2 :: real)),
              (''type'', TString ''scale'')] ''type'' = Some (TString ''scale'')
   \<and> (\<exists>m. decode_config example_float
         (TTable [(''dark'', TArray [TTable [(''variable'', TString ''lightness''),
                     (''value'', TFloat (1 / 2)), (''type'', TString ''scale'')]]),
                  (''light'', TArray [])]) = Inl (ValidationError m))
   \<and> (\<exists>m. fst (Editor_edits
           (example_env\<lparr>toml_parse := \<lambda>bytes. Inr (TTable [(''dark'',
               TArray [TTable [(''variable'', TString ''lightness''),
                     (''value'', TFloat (1 / 2)), (''type'', TString ''scale'')]]),
                  (''light'', TArray [])])\<rparr>)
           example_conf \<lparr>files = example_files, dirs = {[], ''themes''}, trace = []\<rparr>)
         = Inl (ValidationError m))
   \<and> decode_config example_float example_toml =
     Inr [(''dark'', [\<lparr>edit_variable = ''lightness'', edit_value = 1, edit_type = ''value'',
                       edit_name = None, edit_accent = Some True\<rparr>]),
          (''light'', [])]
   \<and> Edit_call \<lparr>edit_variable = ''lightness'', edit_value = (1 :: real), edit_type = ''value'',
                 edit_name = None, edit_accent = Some True\<rparr> (4 / 5) = Inr 1
   \<and> Edit_call \<lparr>edit_variable = ''lightness'', edit_value = (1 :: real), edit_type = ''add'',
                 edit_name = None, edit_accent = Some True\<rparr> (4 / 5) = Inl (ValueError ''add'')"
proof -
  let ?tbl = "[(''variable'', TString ''lightness''), (''value'', TFloat (1 / 2 :: real)),
               (''type'', TString ''scale'')]"
  let ?entries = "[(''dark'', TArray [TTable ?tbl]), (''light'', TArray [])]"
  let ?env = "example_env\<lparr>toml_parse := \<lambda>bytes. Inr (TTable ?entries)\<rparr>"
  let ?w = "\<lparr>files = example_files, dirs = {[], ''themes''}, trace = []\<rparr>"
  let ?ok = "\<lparr>edit_variable = ''lightness'', edit_value = (1 :: real), edit_type = ''value'',
              edit_name = None, edit_accent = Some True\<rparr>"
  let ?add = "\<lparr>edit_variable = ''lightness'', edit_value = (1 :: real), edit_type = ''add'',
               edit_name = None, edit_accent = Some True\<rparr>"
  note t = invalid_mode_rejected_at_load
    [of "''dark''" "[TTable ?tbl]" ?entries ?tbl "''scale''" example_float ?w example_conf
        "''config''" ?env example_toml
        "[(''dark'', [?ok]), (''light'', [])]" "''dark''" "[?ok]" ?ok "4 / 5" ?add "4 / 5"]
  have a: "(''dark'', TArray [TTable ?tbl]) \<in> set ?entries" by simp
  have b: "map_of ?tbl ''type'' = Some (TString ''scale'')" by simp
  have f: "files ?w example_conf = Some ''config''"
    by (simp add: example_files_def example_conf_def example_src_def)
  have p: "toml_parse ?env ''config'' = Inr (TTable ?entries)" by simp
  from t a b have c: "\<exists>m. decode_config example_float (TTable ?entries) = Inl (ValidationError m)"
    by simp
  from t a b f p have d: "\<exists>m. fst (Editor_edits ?env example_conf ?w) = Inl (ValidationError m)"
    by simp
  from t decode_example_toml have e: "\<exists>r. Edit_call ?ok (4 / 5) = Inr r" by simp
  then have e': "Edit_call ?ok (4 / 5) = Inr 1" by (simp add: Edit_call_def)
  from t have g: "Edit_call ?add (4 / 5) = Inl (ValueError ''add'')" by simp
  show ?thesis
    apply (intro conjI)
          apply (rule a)
         apply (rule b)
        apply (rule c)
       apply (rule d)
      apply (rule decode_example_toml)
     apply (rule e')
    apply (rule g)
    done
qed

section \<open>The destination guard\<close>



text \<open>
  The guard is the only thing between the command and its write: in the same world
  without the destination, the command reads the configuration and the source and writes
  the substituted text.
\<close>

lemma example_Colors_create:
  "Colors_create example_coloraide example_color
     [\<lparr>edit_variable = ''lightness'', edit_value = 1, edit_type = ''value'',
       edit_name = None, edit_accent = Some True\<rparr>]
   = Inr \<lparr>colors_name = ''grey'', colors_original = ''#808080'',
          colors_custom = ''#ffffff'', colors_changed = True\<rparr>"
  by (simp add: Colors_create_def example_color_def example_coloraide_def matches_def
        color_set_def Edit_call_def)

lemma example_palette:
  "Editor_palette example_env example_conf \<lparr>files = example_files, dirs = {[], ''themes''}, trace = []\<rparr>
   = (Inr [(''mocha'', \<lparr>flavor_name = ''mocha'',
                        colors = [\<lparr>colors_name = ''grey'', colors_original = ''#808080'',
                                   colors_custom = ''#ffffff'', colors_changed = True\<rparr>]\<rparr>)],
      \<lparr>files = example_files, dirs = {[], ''themes''}, trace = [Read example_conf]\<rparr>)"
proof -
  have r: "read_text \<lparr>files = example_files, dirs = {[], ''themes''}, trace = []\<rparr> example_conf
           = (Inr ''config'', \<lparr>files = example_files, dirs = {[], ''themes''}, trace = [Read example_conf]\<rparr>)"
    by (simp add: read_text_def example_files_def example_conf_def example_src_def)
  have e: "Editor_edits example_env example_conf \<lparr>files = example_files, dirs = {[], ''themes''}, trace = []\<rparr>
           = (Inr [(''dark'', [\<lparr>edit_variable = ''lightness'', edit_value = 1,
                                 edit_type = ''value'', edit_name = None,
                                 edit_accent = Some True\<rparr>]), (''light'', [])],
              \<lparr>files = example_files, dirs = {[], ''themes''}, trace = [Read example_conf]\<rparr>)"
    by (simp add: Editor_edits_def r example_env_def decode_example_toml)
  have P: "PALETTE example_env = [\<lparr>flavor_identifier = ''mocha'', flavor_dark = True,
                                     flavor_colors = [example_color]\<rparr>]"
    and L: "colorlib example_env = example_coloraide"
    by (simp_all add: example_env_def)
  show ?thesis
    by (simp add: Editor_palette_def e P L palette_entry_def getitem_def Flavor_create_def
          example_Colors_create dict_of_def)
qed

lemma Replace_call_example:
  "Replace_call example_env example_replace \<lparr>files = example_files, dirs = {[], ''themes''}, trace = []\<rparr>
     = (Inr (),
        \<lparr>files = example_files(example_dst \<mapsto> ''color: #ffffff;''),
         dirs = {[], ''themes''},
         trace = [Write example_dst, Read example_src, Read example_conf]\<rparr>)"
proof -
  have d: "Replace_dst example_replace \<lparr>files = example_files, dirs = {[], ''themes''}, trace = []\<rparr> = Inr example_dst"
    by (simp add: Replace_dst_def resolved_dst_def with_stem_def exists_def example_replace_def
          example_files_def example_src_def example_dst_def example_conf_def)
  have c: "Replace_colors example_env example_replace \<lparr>files = example_files, dirs = {[], ''themes''}, trace = []\<rparr>
           = (Inr [(''#808080'', ''#ffffff'')],
              \<lparr>files = example_files, dirs = {[], ''themes''}, trace = [Read example_conf]\<rparr>)"
    using example_palette
    by (simp add: Replace_colors_def example_replace_def colors_of_def Flavor_dict_def dict_of_def)
  have r: "read_text \<lparr>files = example_files, dirs = {[], ''themes''}, trace = [Read example_conf]\<rparr> (src example_replace)
           = (Inr ''color: #808080;'',
              \<lparr>files = example_files, dirs = {[], ''themes''}, trace = [Read example_src, Read example_conf]\<rparr>)"
    by (simp add: read_text_def example_files_def example_replace_def)
  have s: "str_replace ''#808080'' ''#ffffff'' ''color: #808080;'' = ''color: #ffffff;''"
    by (simp add: str_replace_def)
  show ?thesis
    by (simp add: Replace_call_def d c r s write_text_def example_dst_def)
qed

end
